theory Spec2Isabelle
  imports Main "HOL-Library.AList" "HOL-Library.Word"
begin

section \<open>fluent-bit-go-s3: a shallow embedding of \<^verbatim>\<open>s3.go\<close> and \<^verbatim>\<open>out_s3.go\<close>\<close>

text \<open>
  Go strings and byte slices are byte sequences; both are modelled as \<^typ>\<open>string\<close>
  (a list of 8-bit \<^typ>\<open>char\<close>). Go's \<^verbatim>\<open>error\<close> results are values of
  a sum type, \<^term>\<open>Inl\<close> carrying the error. What the program obtains from its
  libraries and from its surroundings (the credential file, the process environment, the
  time-zone database, the logrus level parser, the JSON marshaller, the S3 uploader) is a
  parameter of the model.
\<close>

subsection \<open>\<^verbatim>\<open>s3.go\<close>: data\<close>

text \<open>\<^verbatim>\<open>type format int\<close> with its two \<^verbatim>\<open>iota\<close> constants; the program builds no other value of it.\<close>

datatype format = plainTextFormat | gzipFormat

text \<open>logrus' \<^verbatim>\<open>Level\<close>.\<close>

datatype level = PanicLevel | FatalLevel | ErrorLevel | WarnLevel | InfoLevel | DebugLevel | TraceLevel

text \<open>
  \<^verbatim>\<open>*time.Location\<close>: a zone is used here only through the offset from UTC, in seconds,
  that it gives an instant (Unix seconds).
\<close>

type_synonym location = "int \<Rightarrow> int"

text \<open>
  \<^verbatim>\<open>*credentials.Credentials\<close>: the value remembers which provider it was built with
  (\<^verbatim>\<open>NewSharedCredentials(filename, profile)\<close>,
  \<^verbatim>\<open>NewStaticCredentials(id, secret, token)\<close>, \<^verbatim>\<open>NewEnvCredentials()\<close>).
\<close>

datatype credentials =
    NewSharedCredentials string string
  | NewStaticCredentials string string string
  | NewEnvCredentials

record cred_value =
  AccessKeyID :: string
  SecretAccessKey :: string
  SessionToken :: string

datatype cred_error = SharedCredsLoadError | ErrStaticCredentialsEmpty | EnvCredsNotFound

text \<open>
  The surroundings of credential resolution: what the profile of a credential file holds,
  and what the process environment holds (\<^term>\<open>None\<close>: nothing retrievable).
\<close>

record aws_env =
  shared_profile :: "string \<Rightarrow> string \<Rightarrow> cred_value option"
  env_credentials :: "cred_value option"

text \<open>
  \<^verbatim>\<open>creds.Get()\<close>. The static provider fails exactly when the key id or the secret
  is empty; the two other providers read the surroundings.
\<close>

fun creds_Get :: "aws_env \<Rightarrow> credentials \<Rightarrow> cred_error + cred_value" where
  "creds_Get E (NewSharedCredentials filename profile) =
     (case shared_profile E filename profile of
        None \<Rightarrow> Inl SharedCredsLoadError
      | Some v \<Rightarrow> Inr v)"
| "creds_Get E (NewStaticCredentials ident secret token) =
     (if ident = [] \<or> secret = [] then Inl ErrStaticCredentialsEmpty
      else Inr \<lparr>AccessKeyID = ident, SecretAccessKey = secret, SessionToken = token\<rparr>)"
| "creds_Get E NewEnvCredentials =
     (case env_credentials E of
        None \<Rightarrow> Inl EnvCredsNotFound
      | Some v \<Rightarrow> Inr v)"

datatype config_error =
    FailedToCreateCredentials
  | EmptyBucket
  | EmptyS3prefix
  | EmptyRegion
  | EndpointNotSupported
  | InvalidLogLevel string
  | InvalidTimeZone string

subsection \<open>\<^verbatim>\<open>GetCredentials\<close>\<close>

text \<open>
  The result is paired with the list of credential values on which \<^verbatim>\<open>Get\<close> was
  called, in call order: the sources the function attempted. A failed attempt prints a
  line and falls to the final \<^verbatim>\<open>return nil, fmt.Errorf(...)\<close>.
\<close>

definition GetCredentials ::
  "aws_env \<Rightarrow> string \<Rightarrow> string \<Rightarrow> string \<Rightarrow> credentials list \<times> (config_error + credentials)" where
  "GetCredentials E accessKeyID secretKey credential =
     (if credential \<noteq> [] then
        (let creds = NewSharedCredentials credential ''default'' in
         case creds_Get E creds of
           Inl err \<Rightarrow> ([creds], Inl FailedToCreateCredentials)
         | Inr v \<Rightarrow> ([creds], Inr creds))
      else if \<not> (accessKeyID = [] \<and> secretKey = []) then
        (let creds = NewStaticCredentials accessKeyID secretKey [] in
         case creds_Get E creds of
           Inl err \<Rightarrow> ([creds], Inl FailedToCreateCredentials)
         | Inr v \<Rightarrow> ([creds], Inr creds))
      else
        (let creds = NewEnvCredentials in
         case creds_Get E creds of
           Inl err \<Rightarrow> ([creds], Inl FailedToCreateCredentials)
         | Inr v \<Rightarrow> ([creds], Inr creds)))"

subsection \<open>\<^verbatim>\<open>getS3Config\<close>\<close>

record s3Config =
  credentials :: credentials
  bucket :: string
  s3prefix :: string
  region :: string
  compress :: format
  endpoint :: string
  logLevel :: level
  location :: location
  autoCreateBucket :: bool

text \<open>\<^verbatim>\<open>strings.HasSuffix\<close>.\<close>

definition HasSuffix :: "string \<Rightarrow> string \<Rightarrow> bool" where
  "HasSuffix s suffix =
     (length s \<ge> length suffix \<and> drop (length s - length suffix) s = suffix)"

text \<open>\<^verbatim>\<open>strconv.ParseBool\<close>: twelve spellings, every other string is an error.\<close>

definition ParseBool :: "string \<Rightarrow> bool option" where
  "ParseBool str =
     (if str \<in> set [''1'', ''t'', ''T'', ''TRUE'', ''true'', ''True''] then Some True
      else if str \<in> set [''0'', ''f'', ''F'', ''FALSE'', ''false'', ''False''] then Some False
      else None)"

text \<open>
  The libraries whose answer depends on data outside the repository:
  \<^verbatim>\<open>log.ParseLevel\<close> (\<^term>\<open>None\<close>: not a level) and
  \<^verbatim>\<open>time.LoadLocation\<close> (\<^term>\<open>Inl\<close>: the error's text), and
  \<^verbatim>\<open>time.Local\<close>, the process-wide variable that \<^verbatim>\<open>getS3Config\<close> reads.
\<close>

record libs =
  ParseLevel :: "string \<Rightarrow> level option"
  LoadLocation :: "string \<Rightarrow> string + location"

text \<open>
  \<^verbatim>\<open>getS3Config\<close> takes the surroundings, the value of \<^verbatim>\<open>time.Local\<close> and
  the eleven strings of the Go function, in its order, and returns a
  \<^typ>\<open>config_error + s3Config\<close>. Every successful return has set every field of the
  configuration but the endpoint, which keeps its zero value when the string is empty.
\<close>

definition getS3Config where
  "getS3Config E (L :: libs) time_Local accessID secretKey credential s3prefix' bucket' region'
       compress' endpoint' autoCreateBucket' logLevel' timeZone =
     (case snd (GetCredentials E accessID secretKey credential) of
        Inl err \<Rightarrow> Inl FailedToCreateCredentials
      | Inr creds \<Rightarrow>
          if bucket' = [] then Inl EmptyBucket
          else if s3prefix' = [] then Inl EmptyS3prefix
          else if region' = [] then Inl EmptyRegion
          else
            let conf_compress = (if compress' = ''gzip'' then gzipFormat else plainTextFormat) in
            if endpoint' \<noteq> [] \<and> HasSuffix endpoint' ''amazonaws.com'' then Inl EndpointNotSupported
            else
              let conf_endpoint = (if endpoint' \<noteq> [] then endpoint' else []);
                  conf_autoCreateBucket =
                    (case ParseBool autoCreateBucket' of
                       None \<Rightarrow> False
                     | Some isAutoCreateBucket \<Rightarrow> isAutoCreateBucket);
                  logLevel'' = (if logLevel' = [] then ''info'' else logLevel')
              in
              case ParseLevel L logLevel'' of
                None \<Rightarrow> Inl (InvalidLogLevel logLevel'')
              | Some lvl \<Rightarrow>
                  if timeZone \<noteq> [] then
                    (case LoadLocation L timeZone of
                       Inl err \<Rightarrow> Inl (InvalidTimeZone err)
                     | Inr loc \<Rightarrow>
                         Inr \<lparr>credentials = creds, bucket = bucket', s3prefix = s3prefix',
                              region = region', compress = conf_compress,
                              endpoint = conf_endpoint, logLevel = lvl, location = loc,
                              autoCreateBucket = conf_autoCreateBucket\<rparr>)
                  else
                    Inr \<lparr>credentials = creds, bucket = bucket', s3prefix = s3prefix',
                         region = region', compress = conf_compress,
                         endpoint = conf_endpoint, logLevel = lvl, location = time_Local,
                         autoCreateBucket = conf_autoCreateBucket\<rparr>)"

subsection \<open>\<^verbatim>\<open>time.Time\<close> and its layout formatter\<close>

text \<open>
  A \<^verbatim>\<open>time.Time\<close> is an instant (Unix seconds; the sub-second part plays no role in
  the layouts used) and the zone it is shown in. \<^verbatim>\<open>t.Local()\<close> shows the same instant
  in the zone that the process-wide variable \<^verbatim>\<open>time.Local\<close> holds at the call.
\<close>

record Time =
  unixSec :: int
  loc :: location

definition Local :: "location \<Rightarrow> Time \<Rightarrow> Time" where
  "Local time_Local t = t\<lparr>loc := time_Local\<rparr>"

text \<open>
  \<^verbatim>\<open>absDate\<close> and \<^verbatim>\<open>absClock\<close> of package \<^verbatim>\<open>time\<close>: the civil date and the
  clock of a count of seconds, here counted from 0001-01-01T00:00:00 of the zone shown
  (Unix seconds plus the zone's offset plus 62135596800), in cycles of 400, 100, 4 and 1
  years. Years run over all integers; machine overflow of the count is not modelled.
\<close>

definition isLeap :: "int \<Rightarrow> bool" where
  "isLeap year = (year mod 4 = 0 \<and> (year mod 100 \<noteq> 0 \<or> year mod 400 = 0))"

definition daysBefore :: "int list" where
  "daysBefore = [0, 31, 59, 90, 120, 151, 181, 212, 243, 273, 304, 334, 365]"

definition absDate :: "int \<Rightarrow> int \<times> int \<times> int" where
  "absDate absSec =
     (let d = absSec div 86400;
          n400 = d div 146097;
          y400 = 400 * n400;
          d400 = d - 146097 * n400;
          n100 = d400 div 36524;
          n100' = n100 - n100 div 4;
          y100 = y400 + 100 * n100';
          d100 = d400 - 36524 * n100';
          n4 = d100 div 1461;
          y4 = y100 + 4 * n4;
          d4 = d100 - 1461 * n4;
          n1 = d4 div 365;
          n1' = n1 - n1 div 4;
          y = y4 + n1';
          yday = d4 - 365 * n1';
          year = y + 1
      in
        if isLeap year \<and> yday = 31 + 29 - 1 then (year, 2, 29)
        else
          let day = (if isLeap year \<and> yday > 31 + 29 - 1 then yday - 1 else yday);
              month = day div 31;
              endd = daysBefore ! nat (month + 1);
              month' = (if day \<ge> endd then month + 1 else month);
              beginn = (if day \<ge> endd then endd else daysBefore ! nat month)
          in (year, month' + 1, day - beginn + 1))"

definition absClock :: "int \<Rightarrow> int \<times> int \<times> int" where
  "absClock absSec =
     (let sec = absSec mod 86400;
          hour = sec div 3600;
          sec' = sec - hour * 3600;
          minute = sec' div 60
      in (hour, minute, sec' - minute * 60))"

definition abs_of :: "Time \<Rightarrow> int" where
  "abs_of t = unixSec t + loc t (unixSec t) + 62135596800"

text \<open>\<^verbatim>\<open>appendInt\<close>: decimal digits, a sign for a negative number, zeros up to the width.\<close>

fun decimal :: "nat \<Rightarrow> string" where
  "decimal u = (if u < 10 then [char_of (48 + u)] else decimal (u div 10) @ [char_of (48 + u mod 10)])"

definition appendInt :: "int \<Rightarrow> nat \<Rightarrow> string" where
  "appendInt x width =
     (let u = nat \<bar>x\<bar>; ds = decimal u
      in (if x < 0 then ''-'' else []) @ replicate (width - length ds) CHR ''0'' @ ds)"

text \<open>
  \<^verbatim>\<open>nextStdChunk\<close> finds the first layout element of a layout string. The layouts of
  this program are strings of digits, so the elements that start with a digit are modelled
  (\<^verbatim>\<open>2006 01 1 02 2 15 03 3 04 4 05 5 06 002\<close>); the ones that start with a letter, a
  sign, an underscore or a point are left out. \<^verbatim>\<open>Format\<close> copies the text before
  each element and prints the element's field.
\<close>

datatype std = stdNone | stdLongYear | stdYear | stdNumMonth | stdZeroMonth | stdDay | stdZeroDay
  | stdZeroYearDay | stdHour | stdHour12 | stdZeroHour12 | stdMinute | stdZeroMinute
  | stdSecond | stdZeroSecond

definition std0x :: "char \<Rightarrow> std" where
  "std0x c = [stdZeroMonth, stdZeroDay, stdZeroHour12, stdZeroMinute, stdZeroSecond, stdYear] ! (of_char c - 49)"

fun nextStdChunk :: "string \<Rightarrow> string \<times> std \<times> string" where
  "nextStdChunk [] = ([], stdNone, [])"
| "nextStdChunk (c # rest) =
     (if c = CHR ''0'' \<and> length rest \<ge> 1 \<and> (49::nat) \<le> of_char (hd rest) \<and> of_char (hd rest) \<le> (54::nat)
        then ([], std0x (hd rest), tl rest)
      else if c = CHR ''0'' \<and> length rest \<ge> 2 \<and> take 2 rest = ''02''
        then ([], stdZeroYearDay, drop 2 rest)
      else if c = CHR ''1'' then
        (if length rest \<ge> 1 \<and> hd rest = CHR ''5'' then ([], stdHour, tl rest)
         else ([], stdNumMonth, rest))
      else if c = CHR ''2'' then
        (if length rest \<ge> 3 \<and> take 3 rest = ''006'' then ([], stdLongYear, drop 3 rest)
         else ([], stdDay, rest))
      else if c = CHR ''3'' then ([], stdHour12, rest)
      else if c = CHR ''4'' then ([], stdMinute, rest)
      else if c = CHR ''5'' then ([], stdSecond, rest)
      else (case nextStdChunk rest of (prefix, s, suffix) \<Rightarrow> (c # prefix, s, suffix)))"

definition appendStd :: "Time \<Rightarrow> std \<Rightarrow> string" where
  "appendStd t s =
     (case (absDate (abs_of t), absClock (abs_of t)) of
        ((year, month, day), (hour, minute, second)) \<Rightarrow>
          (case s of
             stdNone \<Rightarrow> []
           | stdLongYear \<Rightarrow> appendInt year 4
           | stdYear \<Rightarrow> appendInt (\<bar>year\<bar> mod 100) 2
           | stdNumMonth \<Rightarrow> appendInt month 0
           | stdZeroMonth \<Rightarrow> appendInt month 2
           | stdDay \<Rightarrow> appendInt day 0
           | stdZeroDay \<Rightarrow> appendInt day 2
           | stdZeroYearDay \<Rightarrow> []
           | stdHour \<Rightarrow> appendInt hour 2
           | stdHour12 \<Rightarrow> appendInt (if hour mod 12 = 0 then 12 else hour mod 12) 0
           | stdZeroHour12 \<Rightarrow> appendInt (if hour mod 12 = 0 then 12 else hour mod 12) 2
           | stdMinute \<Rightarrow> appendInt minute 0
           | stdZeroMinute \<Rightarrow> appendInt minute 2
           | stdSecond \<Rightarrow> appendInt second 0
           | stdZeroSecond \<Rightarrow> appendInt second 2))"

lemma nextStdChunk_shorter:
  "nextStdChunk layout = (prefix, s, suffix) \<Longrightarrow> s \<noteq> stdNone \<Longrightarrow> length suffix < length layout"
proof (induction layout arbitrary: prefix)
  case Nil
  then show ?case by simp
next
  case (Cons c rest)
  then show ?case
    by (auto split: if_splits prod.splits simp: less_Suc_eq_le)
qed

function Format :: "Time \<Rightarrow> string \<Rightarrow> string" where
  "Format t layout =
     (case nextStdChunk layout of
        (prefix, s, suffix) \<Rightarrow>
          if s = stdNone then prefix
          else prefix @ appendStd t s @ Format t suffix)"
  by pat_completeness auto
termination
  by (relation "measure (\<lambda>(t, layout). length layout)") (auto dest: nextStdChunk_shorter [OF sym])

subsection \<open>\<^verbatim>\<open>filepath.Join\<close> (Unix)\<close>

text \<open>
  \<^verbatim>\<open>filepath.Clean\<close> with the separator \<^verbatim>\<open>/\<close>: \<^term>\<open>out\<close> is the output
  buffer, \<^term>\<open>dotdot\<close> the length below which \<^verbatim>\<open>..\<close> cannot remove an element.
  \<^verbatim>\<open>backtrack\<close> is the inner loop that drops the last element of the buffer.
  \<^verbatim>\<open>filepath.Join\<close> skips leading empty elements, joins the rest with the separator and
  cleans the result.
\<close>

function backtrack :: "nat \<Rightarrow> string \<Rightarrow> string" where
  "backtrack dotdot out =
     (if out = [] then []
      else if length (butlast out) > dotdot \<and> last out \<noteq> CHR ''/'' then backtrack dotdot (butlast out)
      else butlast out)"
  by pat_completeness auto
termination
  by (relation "measure (\<lambda>(dotdot, out). length out)") auto

function clean_loop :: "bool \<Rightarrow> string \<Rightarrow> nat \<Rightarrow> string \<Rightarrow> string" where
  "clean_loop rooted out dotdot [] = out"
| "clean_loop rooted out dotdot (c # rest) =
     (if c = CHR ''/'' then clean_loop rooted out dotdot rest
      else if c = CHR ''.'' \<and> (rest = [] \<or> hd rest = CHR ''/'') then clean_loop rooted out dotdot rest
      else if c = CHR ''.'' \<and> hd rest = CHR ''.'' \<and> (tl rest = [] \<or> hd (tl rest) = CHR ''/'') then
        (if length out > dotdot then clean_loop rooted (backtrack dotdot out) dotdot (tl rest)
         else if \<not> rooted then
           (let out' = (if length out > 0 then out @ ''/'' else out) @ ''..''
            in clean_loop rooted out' (length out') (tl rest))
         else clean_loop rooted out dotdot (tl rest))
      else
        (let out' = (if rooted \<and> length out \<noteq> 1 \<or> \<not> rooted \<and> length out \<noteq> 0 then out @ ''/'' else out)
         in clean_loop rooted (out' @ takeWhile (\<lambda>x. x \<noteq> CHR ''/'') (c # rest)) dotdot
              (dropWhile (\<lambda>x. x \<noteq> CHR ''/'') (c # rest))))"
  by pat_completeness auto
termination
  by (relation "measure (\<lambda>(rooted, out, dotdot, path). length path)")
     (auto simp: less_Suc_eq_le length_dropWhile_le intro: le_trans [OF length_dropWhile_le])

definition Clean :: "string \<Rightarrow> string" where
  "Clean path =
     (if path = [] then ''.''
      else
        let rooted = (hd path = CHR ''/'');
            out = (if rooted then clean_loop True ''/'' 1 (tl path) else clean_loop False [] 0 path)
        in if out = [] then ''.'' else out)"

text \<open>\<^verbatim>\<open>strings.Join\<close>.\<close>

fun strings_Join :: "string list \<Rightarrow> string \<Rightarrow> string" where
  "strings_Join [] sep = []"
| "strings_Join [e] sep = e"
| "strings_Join (e # es) sep = e @ sep @ strings_Join es sep"

fun filepath_Join :: "string list \<Rightarrow> string" where
  "filepath_Join [] = []"
| "filepath_Join (e # es) =
     (if e \<noteq> [] then Clean (strings_Join (e # es) ''/'') else filepath_Join es)"

subsection \<open>\<^verbatim>\<open>out_s3.go\<close>: \<^verbatim>\<open>s3operator\<close> and \<^verbatim>\<open>GenerateObjectKey\<close>\<close>

text \<open>
  The fields of \<^verbatim>\<open>s3operator\<close> that the program reads (the uploader and the logger
  are part of the surroundings). Field names that \<^verbatim>\<open>s3Config\<close> also has carry the
  prefix \<^verbatim>\<open>op_\<close>.

  \<^verbatim>\<open>GenerateObjectKey\<close> assigns the operator's zone to \<^verbatim>\<open>time.Local\<close> before it
  formats; the function returns the key together with the new value of that variable.
\<close>

record s3operator =
  op_bucket :: string
  op_prefix :: string
  compressFormat :: format
  op_location :: location

definition GenerateObjectKey :: "location \<Rightarrow> s3operator \<Rightarrow> Time \<Rightarrow> string \<times> location" where
  "GenerateObjectKey time_Local s3op t =
     (let fileext = (case compressFormat s3op of plainTextFormat \<Rightarrow> ''.log'' | gzipFormat \<Rightarrow> ''.log.gz'');
          time_Local' = op_location s3op;
          timestamp = Format (Local time_Local' t) ''20060102150405'';
          date = Format (Local time_Local' t) ''20060102'';
          hour = Format (Local time_Local' t) ''15'';
          fileName = strings_Join [timestamp, fileext] [];
          objectKey = filepath_Join [op_prefix s3op, date, hour, fileName]
      in (objectKey, time_Local'))"

subsection \<open>\<^verbatim>\<open>compress/gzip\<close> and \<^verbatim>\<open>makeGzip\<close>\<close>

unbundle bit_operations_syntax

text \<open>
  The gzip container (RFC 1952) as \<^verbatim>\<open>gzip.Writer\<close> writes it: ten header bytes,
  the member name closed by a zero byte, the DEFLATE stream, the CRC-32 of the input and
  its length modulo \<open>2^32\<close>, both little-endian. CRC-32 is the reflected IEEE polynomial,
  bit by bit.
\<close>

definition crc_shift :: "32 word \<Rightarrow> 32 word" where
  "crc_shift c = (if bit c 0 then drop_bit 1 c XOR 0xEDB88320 else drop_bit 1 c)"

definition crc_byte :: "32 word \<Rightarrow> char \<Rightarrow> 32 word" where
  "crc_byte c b = (crc_shift ^^ 8) (c XOR of_nat (of_char b))"

definition crc32_Update :: "32 word \<Rightarrow> string \<Rightarrow> 32 word" where
  "crc32_Update crc p = NOT (foldl crc_byte (NOT crc) p)"

definition PutUint32 :: "32 word \<Rightarrow> string" where
  "PutUint32 v = map (\<lambda>i. char_of (unat (drop_bit (8 * i) v))) [0, 1, 2, 3]"

text \<open>
  The DEFLATE codec of \<^verbatim>\<open>compress/flate\<close> is a parameter: the stream it writes for an
  input, the error (if any) that the compressor's \<^verbatim>\<open>Write\<close> reports, and the decoder,
  which reads one stream from the front of its input and returns the data with the bytes
  that follow the stream.
\<close>

record flate_lib =
  deflate :: "string \<Rightarrow> string"
  Write_error :: "string \<Rightarrow> string option"
  inflate :: "string \<Rightarrow> (string \<times> string) option"

text \<open>
  \<^verbatim>\<open>gzip.Writer\<close>: \<^term>\<open>gz_w\<close> is the underlying \<^verbatim>\<open>bytes.Buffer\<close>, whose writes
  never fail; \<^term>\<open>pending\<close> is the input handed to the compressor, which reaches the
  buffer when the writer is closed. \<^verbatim>\<open>ModTime\<close> is in Unix seconds; the zero
  \<^verbatim>\<open>time.Time\<close> is second \<open>-62135596800\<close>. A header string must be free of zero bytes;
  of the Latin-1 strings only the ASCII ones are modelled.
\<close>

record gzip_Writer =
  gz_w :: string
  Name :: string
  ModTime :: int
  wroteHeader :: bool
  closed :: bool
  gz_err :: "string option"
  gz_size :: "32 word"
  digest :: "32 word"
  pending :: string

definition NewWriter :: "string \<Rightarrow> gzip_Writer" where
  "NewWriter w =
     \<lparr>gz_w = w, Name = [], ModTime = - 62135596800, wroteHeader = False, closed = False,
      gz_err = None, gz_size = 0, digest = 0, pending = []\<rparr>"

definition writeString :: "string \<Rightarrow> string + string" where
  "writeString s =
     (if list_ex (\<lambda>c. of_char c = (0::nat) \<or> of_char c > (127::nat)) s
        then Inl ''gzip.Write: non-Latin-1 header string''
      else Inr (s @ [CHR 0x00]))"

definition gzip_header :: "gzip_Writer \<Rightarrow> string" where
  "gzip_header z =
     [CHR 0x1f, CHR 0x8b, CHR 0x08, if Name z \<noteq> [] then CHR 0x08 else CHR 0x00]
     @ (if ModTime z > 0 then PutUint32 (word_of_int (ModTime z)) else PutUint32 0)
     @ [CHR 0x00, CHR 0xff]"

definition gzip_Write :: "flate_lib \<Rightarrow> gzip_Writer \<Rightarrow> string \<Rightarrow> gzip_Writer \<times> string option" where
  "gzip_Write F z p =
     (if gz_err z \<noteq> None then (z, gz_err z)
      else
        let z1 = (if \<not> wroteHeader z then
                    (let zh = z\<lparr>wroteHeader := True, gz_w := gz_w z @ gzip_header z\<rparr> in
                     if Name z \<noteq> [] then
                       (case writeString (Name z) of
                          Inl e \<Rightarrow> zh\<lparr>gz_err := Some e\<rparr>
                        | Inr bs \<Rightarrow> zh\<lparr>gz_w := gz_w zh @ bs\<rparr>)
                     else zh)
                  else z)
        in if gz_err z1 \<noteq> None then (z1, gz_err z1)
           else
             let z2 = z1\<lparr>gz_size := gz_size z1 + of_nat (length p),
                        digest := crc32_Update (digest z1) p,
                        pending := pending z1 @ p,
                        gz_err := Write_error F p\<rparr>
             in (z2, gz_err z2))"

definition gzip_Close :: "flate_lib \<Rightarrow> gzip_Writer \<Rightarrow> gzip_Writer \<times> string option" where
  "gzip_Close F z =
     (if gz_err z \<noteq> None then (z, gz_err z)
      else if closed z then (z, None)
      else
        let z1 = z\<lparr>closed := True\<rparr>;
            z2 = (if \<not> wroteHeader z1 then fst (gzip_Write F z1 []) else z1)
        in if gz_err z2 \<noteq> None then (z2, gz_err z2)
           else
             (z2\<lparr>gz_w := gz_w z2 @ deflate F (pending z2) @ PutUint32 (digest z2) @ PutUint32 (gz_size z2),
                  pending := []\<rparr>, None))"

text \<open>
  \<^verbatim>\<open>makeGzip\<close>: the deferred \<^verbatim>\<open>gw.Close()\<close> runs when the inner function returns,
  on both of its paths and before \<^verbatim>\<open>b.Bytes()\<close> is read; its own error is dropped.
  \<^term>\<open>now\<close> is the reading of \<^verbatim>\<open>time.Now()\<close>.
\<close>

definition makeGzip :: "flate_lib \<Rightarrow> Time \<Rightarrow> string \<Rightarrow> string \<times> string option" where
  "makeGzip F now body =
     (let b = [];
          gw = NewWriter b;
          gw = gw\<lparr>Name := ''fluent-bit-go-s3''\<rparr>;
          gw = gw\<lparr>ModTime := unixSec now\<rparr>;
          (gw, err) = gzip_Write F gw body;
          (gw, _) = gzip_Close F gw
      in (gz_w gw, err))"

text \<open>
  The reader that the round trip is stated against, after \<^verbatim>\<open>gzip.Reader\<close>: the header
  with its optional fields (extra field, name, comment, header CRC), one DEFLATE stream,
  the trailer with both checks; a stream of several members is the concatenation of their
  data. \<^term>\<open>None\<close> is any of the reader's errors. The fuel of \<^verbatim>\<open>gunzip_members\<close> is
  the length of the input: every member takes at least eighteen bytes of it.
\<close>

definition readString :: "string \<Rightarrow> string option" where
  "readString s =
     (if CHR 0x00 \<in> set s then Some (tl (dropWhile (\<lambda>c. c \<noteq> CHR 0x00) s)) else None)"

definition flag :: "char \<Rightarrow> nat \<Rightarrow> bool" where
  "flag flg n = bit (of_char flg :: nat) n"

definition readHeader :: "string \<Rightarrow> string option" where
  "readHeader s =
     (if length s < 10 \<or> take 3 s \<noteq> [CHR 0x1f, CHR 0x8b, CHR 0x08] then None
      else
        let flg = s ! 3;
            s1 = drop 10 s;
            s2 = (if flag flg 2 then
                    (if length s1 < 2 then None
                     else
                       let n = of_char (s1 ! 0) + 256 * of_char (s1 ! 1)
                       in if length s1 < 2 + n then None else Some (drop (2 + n) s1))
                  else Some s1);
            s3 = (case s2 of None \<Rightarrow> None | Some r \<Rightarrow> if flag flg 3 then readString r else Some r);
            s4 = (case s3 of None \<Rightarrow> None | Some r \<Rightarrow> if flag flg 4 then readString r else Some r)
        in case s4 of
             None \<Rightarrow> None
           | Some r \<Rightarrow>
               if flag flg 1 then
                 (if length r < 2 then None
                  else if take 2 r = take 2 (PutUint32 (crc32_Update 0 (take (length s - length r) s)))
                    then Some (drop 2 r) else None)
               else Some r)"

definition gunzip_member :: "flate_lib \<Rightarrow> string \<Rightarrow> (string \<times> string) option" where
  "gunzip_member F s =
     (case readHeader s of
        None \<Rightarrow> None
      | Some r \<Rightarrow>
          (case inflate F r of
             None \<Rightarrow> None
           | Some (data, trailer) \<Rightarrow>
               if length trailer \<ge> 8
                  \<and> take 4 trailer = PutUint32 (crc32_Update 0 data)
                  \<and> take 4 (drop 4 trailer) = PutUint32 (of_nat (length data))
               then Some (data, drop 8 trailer) else None))"

fun gunzip_members :: "nat \<Rightarrow> flate_lib \<Rightarrow> string \<Rightarrow> string option" where
  "gunzip_members 0 F s = None"
| "gunzip_members (Suc n) F s =
     (case gunzip_member F s of
        None \<Rightarrow> None
      | Some (data, rest) \<Rightarrow>
          if rest = [] then Some data
          else (case gunzip_members n F rest of None \<Rightarrow> None | Some tail \<Rightarrow> Some (data @ tail)))"

definition gunzip :: "flate_lib \<Rightarrow> string \<Rightarrow> string option" where
  "gunzip F s = gunzip_members (length s) F s"

subsection \<open>Log records, \<^verbatim>\<open>encodeJSON\<close> and \<^verbatim>\<open>createJSON\<close>\<close>

text \<open>
  The values that the MessagePack decoder hands over as \<^verbatim>\<open>interface{}\<close>: nil, booleans,
  integers, floats (their bits), strings, byte slices, arrays and
  \<^verbatim>\<open>map[interface{}]interface{}\<close>. A Go map is the list of its entries in the order in
  which \<^verbatim>\<open>range\<close> visits them; it holds each key once.
\<close>

datatype gvalue =
    VNil
  | VBool bool
  | VInt int
  | VFloat int
  | VString string
  | VBytes string
  | VArray "gvalue list"
  | VMap "(gvalue \<times> gvalue) list"

text \<open>
  The values of the \<^verbatim>\<open>map[string]interface{}\<close> that \<^verbatim>\<open>encodeJSON\<close> builds: the
  string made of a byte slice, the map built by the recursive call, or a value of the
  record as it was.
\<close>

datatype jvalue =
    JText string
  | JObject "(string \<times> jvalue) list"
  | JUnchanged gvalue

text \<open>The type assertion \<^verbatim>\<open>k.(string)\<close>; \<^term>\<open>None\<close> is its panic.\<close>

fun assert_string :: "gvalue \<Rightarrow> string option" where
  "assert_string (VString s) = Some s"
| "assert_string _ = None"

text \<open>
  The loop \<^verbatim>\<open>for k, v := range record\<close> over the entries still to visit, with the map
  \<^verbatim>\<open>m\<close> built so far; \<^verbatim>\<open>m[key] = x\<close> is \<^const>\<open>AList.update\<close>. The lookup
  \<^verbatim>\<open>record[k]\<close> in the map case finds \<^verbatim>\<open>v\<close> again. \<^term>\<open>None\<close> is a panic.
\<close>

fun encodeJSON_range ::
  "(gvalue \<times> gvalue) list \<Rightarrow> (string \<times> jvalue) list \<Rightarrow> (string \<times> jvalue) list option" where
  "encodeJSON_range [] m = Some m"
| "encodeJSON_range ((k, VBytes t) # rest) m =
     (case assert_string k of
        None \<Rightarrow> None
      | Some ks \<Rightarrow> encodeJSON_range rest (AList.update ks (JText t) m))"
| "encodeJSON_range ((k, VMap nextValue) # rest) m =
     (case assert_string k of
        None \<Rightarrow> None
      | Some ks \<Rightarrow>
          (case encodeJSON_range nextValue [] of
             None \<Rightarrow> None
           | Some m' \<Rightarrow> encodeJSON_range rest (AList.update ks (JObject m') m)))"
| "encodeJSON_range ((k, v) # rest) m =
     (case assert_string k of
        None \<Rightarrow> None
      | Some ks \<Rightarrow> encodeJSON_range rest (AList.update ks (JUnchanged v) m))"

definition encodeJSON :: "(gvalue \<times> gvalue) list \<Rightarrow> (string \<times> jvalue) list option" where
  "encodeJSON record = encodeJSON_range record []"

text \<open>
  \<^verbatim>\<open>createJSON\<close> returns a string and an error; \<^verbatim>\<open>jsoniter.Marshal\<close> is a parameter
  (\<^term>\<open>Inl\<close>: its error).
\<close>

definition createJSON ::
  "((string \<times> jvalue) list \<Rightarrow> string + string) \<Rightarrow> (gvalue \<times> gvalue) list \<Rightarrow>
   (string \<times> string option) option" where
  "createJSON marshal record =
     (case encodeJSON record of
        None \<Rightarrow> None
      | Some m \<Rightarrow>
          (case marshal m of
             Inl err \<Rightarrow> Some (''{}'', Some err)
           | Inr js \<Rightarrow> Some (js, None)))"

subsection \<open>\<^verbatim>\<open>Put\<close> and \<^verbatim>\<open>FLBPluginFlushCtx\<close>\<close>

text \<open>
  The surroundings of a flush: the JSON marshaller, the uploader (bucket, key and body
  to the error of \<^verbatim>\<open>Upload\<close>, if any) and the DEFLATE codec; and the three readings of
  \<^verbatim>\<open>time.Now()\<close> that one flush takes, in the order of the calls.
\<close>

record plugin_env =
  Marshal :: "(string \<times> jvalue) list \<Rightarrow> string + string"
  Upload :: "string \<Rightarrow> string \<Rightarrow> string \<Rightarrow> string option"
  flate :: flate_lib

record clock =
  key_now :: Time
  put_now :: Time
  gzip_now :: Time

text \<open>\<^verbatim>\<open>Put\<close> returns its error together with the calls of \<^verbatim>\<open>Upload\<close> it made.\<close>

definition Put ::
  "plugin_env \<Rightarrow> Time \<Rightarrow> s3operator \<Rightarrow> string \<Rightarrow> Time \<Rightarrow> string \<Rightarrow>
   (string \<times> string \<times> string) list \<times> string option" where
  "Put P gz_now s3op objectKey timestamp line =
     (case compressFormat s3op of
        plainTextFormat \<Rightarrow>
          ([(op_bucket s3op, objectKey, line)], Upload P (op_bucket s3op) objectKey line)
      | gzipFormat \<Rightarrow>
          (case makeGzip (flate P) gz_now line of
             (compressed, Some err) \<Rightarrow> ([], Some err)
           | (compressed, None) \<Rightarrow>
               ([(op_bucket s3op, objectKey, compressed)],
                Upload P (op_bucket s3op) objectKey compressed)))"

text \<open>The return codes of package \<^verbatim>\<open>output\<close>.\<close>

definition FLB_ERROR :: int where "FLB_ERROR = 0"

definition FLB_OK :: int where "FLB_OK = 1"

definition FLB_RETRY :: int where "FLB_RETRY = 2"

text \<open>
  What a flush reads and changes outside its arguments: the variable \<^verbatim>\<open>time.Local\<close>,
  the registry \<^verbatim>\<open>s3operators\<close>, the calls of \<^verbatim>\<open>Upload\<close> made so far and the warnings
  logged so far.
\<close>

datatype log_line = WarnCreating string | WarnSending string

record world =
  time_Local :: location
  s3operators :: "s3operator list"
  uploaded :: "(string \<times> string \<times> string) list"
  logged :: "log_line list"

text \<open>
  The decoder is the list of the results that the calls of \<^verbatim>\<open>GetRecord\<close> give, each a
  return code and a record; a call past the end of the data returns a code other than zero.
  \<^verbatim>\<open>read_records\<close> is the loop of \<^verbatim>\<open>FLBPluginFlushCtx\<close>.
\<close>

fun read_records ::
  "plugin_env \<Rightarrow> (int \<times> (gvalue \<times> gvalue) list) list \<Rightarrow> string \<Rightarrow> log_line list \<Rightarrow>
   (string \<times> log_line list) option" where
  "read_records P [] lines warns = Some (lines, warns)"
| "read_records P ((ret, record) # dec) lines warns =
     (if ret \<noteq> 0 then Some (lines, warns)
      else
        case createJSON (Marshal P) record of
          None \<Rightarrow> None
        | Some (line, Some err) \<Rightarrow> read_records P dec lines (warns @ [WarnCreating err])
        | Some (line, None) \<Rightarrow> read_records P dec (lines @ line @ [CHR 0x0A]) warns)"

text \<open>
  \<^term>\<open>ctx\<close> is the operator id that \<^verbatim>\<open>FLBPluginGetContext\<close> returns; indexing the
  registry out of range panics (\<^term>\<open>None\<close>).
\<close>

definition FLBPluginFlushCtx ::
  "plugin_env \<Rightarrow> clock \<Rightarrow> world \<Rightarrow> nat \<Rightarrow> (int \<times> (gvalue \<times> gvalue) list) list \<Rightarrow>
   (int \<times> world) option" where
  "FLBPluginFlushCtx P C w ctx dec =
     (if \<not> ctx < length (s3operators w) then None
      else
        let s3op = s3operators w ! ctx in
        case read_records P dec [] [] of
          None \<Rightarrow> None
        | Some (lines, warns) \<Rightarrow>
            (case GenerateObjectKey (time_Local w) s3op (key_now C) of
               (objectKey, tl') \<Rightarrow>
                 (case Put P (gzip_now C) s3op objectKey (put_now C) lines of
                    (calls, Some err) \<Rightarrow>
                      Some (FLB_RETRY,
                            w\<lparr>time_Local := tl', uploaded := uploaded w @ calls,
                              logged := logged w @ warns @ [WarnSending err]\<rparr>)
                  | (calls, None) \<Rightarrow>
                      Some (FLB_OK,
                            w\<lparr>time_Local := tl', uploaded := uploaded w @ calls,
                              logged := logged w @ warns\<rparr>))))"

subsection \<open>Instances of the parameters, for concrete runs\<close>

text \<open>
  logrus' level table on ASCII text; a zone database of two zones with fixed offsets; a
  credential file at one path; an empty process environment.
\<close>

definition ToLowerASCII :: "string \<Rightarrow> string" where
  "ToLowerASCII s =
     map (\<lambda>c. if (65::nat) \<le> of_char c \<and> of_char c \<le> (90::nat) then char_of (of_char c + (32::nat)) else c) s"

definition ParseLevel_ascii :: "string \<Rightarrow> level option" where
  "ParseLevel_ascii lvl =
     (let l = ToLowerASCII lvl in
      if l = ''panic'' then Some PanicLevel
      else if l = ''fatal'' then Some FatalLevel
      else if l = ''error'' then Some ErrorLevel
      else if l = ''warn'' \<or> l = ''warning'' then Some WarnLevel
      else if l = ''info'' then Some InfoLevel
      else if l = ''debug'' then Some DebugLevel
      else if l = ''trace'' then Some TraceLevel
      else None)"

definition LoadLocation_fixed :: "string \<Rightarrow> string + location" where
  "LoadLocation_fixed name =
     (if name = ''UTC'' then Inr (\<lambda>sec. 0)
      else if name = ''Asia/Tokyo'' then Inr (\<lambda>sec. 32400)
      else Inl (''unknown time zone '' @ name))"

definition example_libs :: libs where
  "example_libs = \<lparr>ParseLevel = ParseLevel_ascii, LoadLocation = LoadLocation_fixed\<rparr>"

definition example_aws :: aws_env where
  "example_aws =
     \<lparr>shared_profile =
        (\<lambda>filename profile.
           if filename = ''/fluent-bit/credentials'' \<and> profile = ''default''
           then Some \<lparr>AccessKeyID = ''AKIDEXAMPLE'', SecretAccessKey = ''secret'', SessionToken = []\<rparr>
           else None),
      env_credentials = None\<rparr>"

text \<open>
  The stored-block codec: one final stored block of DEFLATE, which holds an input of fewer
  than 65536 bytes as it is. A second codec whose compressor reports an error.
\<close>

definition stored_deflate :: "string \<Rightarrow> string" where
  "stored_deflate x =
     [CHR 0x01, char_of (length x mod 256), char_of (length x div 256 mod 256),
      char_of (255 - length x mod 256), char_of (255 - length x div 256 mod 256)] @ x"

definition stored_inflate :: "string \<Rightarrow> (string \<times> string) option" where
  "stored_inflate s =
     (if length s < 5 \<or> s ! 0 \<noteq> CHR 0x01 then None
      else
        let n = of_char (s ! 1) + 256 * of_char (s ! 2);
            m = of_char (s ! 3) + 256 * of_char (s ! 4)
        in if n + m \<noteq> (65535::nat) \<or> length s < 5 + n then None
           else Some (take n (drop 5 s), drop (5 + n) s))"

definition stored_flate :: flate_lib where
  "stored_flate = \<lparr>deflate = stored_deflate, Write_error = (\<lambda>p. None), inflate = stored_inflate\<rparr>"

definition broken_flate :: flate_lib where
  "broken_flate = stored_flate\<lparr>Write_error := (\<lambda>p. Some ''flate: write error'')\<rparr>"

text \<open>
  A stand-in for the marshaller: it refuses a record with a float field and otherwise
  writes the field names. An uploader that refuses the bucket \<^verbatim>\<open>offline\<close>.
\<close>

fun is_float :: "jvalue \<Rightarrow> bool" where
  "is_float (JUnchanged (VFloat x)) = True"
| "is_float _ = False"

definition names_Marshal :: "(string \<times> jvalue) list \<Rightarrow> string + string" where
  "names_Marshal m =
     (if list_ex (\<lambda>kv. is_float (snd kv)) m then Inl ''unsupported value''
      else Inr (''{'' @ strings_Join (map fst m) '','' @ ''}''))"

definition example_Upload :: "string \<Rightarrow> string \<Rightarrow> string \<Rightarrow> string option" where
  "example_Upload bkt key body = (if bkt = ''offline'' then Some ''RequestError: send request failed'' else None)"

definition example_plugin :: plugin_env where
  "example_plugin = \<lparr>Marshal = names_Marshal, Upload = example_Upload, flate = stored_flate\<rparr>"

definition example_clock :: clock where
  "example_clock =
     \<lparr>key_now = \<lparr>unixSec = 1709626029, loc = (\<lambda>sec. 0)\<rparr>,
      put_now = \<lparr>unixSec = 1709626029, loc = (\<lambda>sec. 0)\<rparr>,
      gzip_now = \<lparr>unixSec = 1709626030, loc = (\<lambda>sec. 0)\<rparr>\<rparr>"

definition example_operator :: "string \<Rightarrow> format \<Rightarrow> s3operator" where
  "example_operator bkt fmt =
     \<lparr>op_bucket = bkt, op_prefix = ''logs'', compressFormat = fmt, op_location = (\<lambda>sec. 0)\<rparr>"

definition example_world :: "string \<Rightarrow> format \<Rightarrow> world" where
  "example_world bkt fmt =
     \<lparr>time_Local = (\<lambda>sec. 3600), s3operators = [example_operator bkt fmt], uploaded = [], logged = []\<rparr>"

subsection \<open>Notions used in the statements\<close>

text \<open>
  A record as the decoder delivers it when the keys are textual: at every depth of nested
  maps each key is a string and occurs once.
\<close>

fun wellformed :: "(gvalue \<times> gvalue) list \<Rightarrow> bool" where
  "wellformed [] = True"
| "wellformed ((k, VMap nextValue) # rest) =
     (assert_string k \<noteq> None \<and> k \<notin> fst ` set rest \<and> wellformed nextValue \<and> wellformed rest)"
| "wellformed ((k, v) # rest) =
     (assert_string k \<noteq> None \<and> k \<notin> fst ` set rest \<and> wellformed rest)"

text \<open>
  The field of a record at a path of field names through nested maps, and the same for
  the map that \<^verbatim>\<open>encodeJSON\<close> returns.
\<close>

fun field :: "(gvalue \<times> gvalue) list \<Rightarrow> string list \<Rightarrow> gvalue option" where
  "field record [] = None"
| "field record [k] = map_of record (VString k)"
| "field record (k # ks) =
     (case map_of record (VString k) of
        Some (VMap nextValue) \<Rightarrow> field nextValue ks
      | _ \<Rightarrow> None)"

fun jfield :: "(string \<times> jvalue) list \<Rightarrow> string list \<Rightarrow> jvalue option" where
  "jfield m [] = None"
| "jfield m [k] = map_of m k"
| "jfield m (k # ks) =
     (case map_of m k of
        Some (JObject m') \<Rightarrow> jfield m' ks
      | _ \<Rightarrow> None)"

text \<open>
  The rule of the encoder for one value: a byte slice becomes text, a nested map is
  encoded by the same rule, every other value stays as it is.
\<close>

fun encoded :: "gvalue \<Rightarrow> jvalue option" where
  "encoded (VBytes t) = Some (JText t)"
| "encoded (VMap nextValue) = map_option JObject (encodeJSON nextValue)"
| "encoded v = Some (JUnchanged v)"

text \<open>
  The JSON lines of the records that \<^verbatim>\<open>createJSON\<close> encodes without error, in order,
  and the warnings for the others.
\<close>

definition encoded_lines ::
  "((string \<times> jvalue) list \<Rightarrow> string + string) \<Rightarrow> (gvalue \<times> gvalue) list list \<Rightarrow> string list" where
  "encoded_lines marshal records =
     concat (map (\<lambda>r. case createJSON marshal r of Some (js, None) \<Rightarrow> [js] | _ \<Rightarrow> []) records)"

definition encode_warnings ::
  "((string \<times> jvalue) list \<Rightarrow> string + string) \<Rightarrow> (gvalue \<times> gvalue) list list \<Rightarrow> log_line list" where
  "encode_warnings marshal records =
     concat (map (\<lambda>r. case createJSON marshal r of Some (js, Some err) \<Rightarrow> [WarnCreating err] | _ \<Rightarrow> [])
       records)"

text \<open>
  The proleptic Gregorian calendar, stated without the cycles of \<^verbatim>\<open>absDate\<close>: the
  length of a month, the days from 0001-01-01 to the first day of a year and of a month,
  and the day number of a date (0001-01-01 is day 0).
\<close>

definition days_in_month :: "int \<Rightarrow> int \<Rightarrow> int" where
  "days_in_month year month =
     (if month = 2 then (if year mod 4 = 0 \<and> (year mod 100 \<noteq> 0 \<or> year mod 400 = 0) then 29 else 28)
      else if month = 4 \<or> month = 6 \<or> month = 9 \<or> month = 11 then 30
      else 31)"

definition days_before_year :: "int \<Rightarrow> int" where
  "days_before_year year =
     365 * (year - 1) + (year - 1) div 4 - (year - 1) div 100 + (year - 1) div 400"

definition days_before_month :: "int \<Rightarrow> int \<Rightarrow> int" where
  "days_before_month year month = sum_list (map (days_in_month year) [1..month - 1])"

definition civil_days :: "int \<Rightarrow> int \<Rightarrow> int \<Rightarrow> int" where
  "civil_days year month day = days_before_year year + days_before_month year month + (day - 1)"

text \<open>A number as two and as four decimal digits.\<close>

definition digit :: "nat \<Rightarrow> char" where
  "digit n = char_of (48 + n)"

definition two_digits :: "int \<Rightarrow> string" where
  "two_digits n = [digit (nat n div 10), digit (nat n mod 10)]"

definition four_digits :: "int \<Rightarrow> string" where
  "four_digits n =
     [digit (nat n div 1000), digit (nat n div 100 mod 10), digit (nat n div 10 mod 10),
      digit (nat n mod 10)]"

text \<open>A zone with one offset at every instant.\<close>

definition fixed_zone :: "int \<Rightarrow> location" where
  "fixed_zone offset = (\<lambda>sec. offset)"

section \<open>Credential resolution\<close>

text \<open>
  C4. \<^verbatim>\<open>GetCredentials\<close> attempts exactly one source, chosen in strict order: the
  \<^verbatim>\<open>default\<close> profile of the credential file when the path is not empty; otherwise
  the static pair when the key id or the secret is not empty; otherwise the process
  environment. It returns that source when its credential is retrievable and the
  configuration error when it is not.
\<close>

theorem GetCredentials_strict_order:
  "GetCredentials E accessKeyID secretKey credential =
     (let src = (if credential \<noteq> [] then NewSharedCredentials credential ''default''
                 else if accessKeyID \<noteq> [] \<or> secretKey \<noteq> [] then NewStaticCredentials accessKeyID secretKey []
                 else NewEnvCredentials)
      in ([src], if isl (creds_Get E src) then Inl FailedToCreateCredentials else Inr src))"
  by (simp add: GetCredentials_def Let_def split: sum.splits)

theorem GetCredentials_strict_order_witness:
  "GetCredentials example_aws ''AKIDEXAMPLE'' ''secret'' [] =
     ([NewStaticCredentials ''AKIDEXAMPLE'' ''secret'' []],
      Inr (NewStaticCredentials ''AKIDEXAMPLE'' ''secret'' []))
   \<and> GetCredentials example_aws ''AKIDEXAMPLE'' [] [] =
     ([NewStaticCredentials ''AKIDEXAMPLE'' [] []], Inl FailedToCreateCredentials)
   \<and> GetCredentials example_aws [] [] [] = ([NewEnvCredentials], Inl FailedToCreateCredentials)
   \<and> GetCredentials example_aws ''AKIDEXAMPLE'' ''secret'' ''/fluent-bit/credentials'' =
     ([NewSharedCredentials ''/fluent-bit/credentials'' ''default''],
      Inr (NewSharedCredentials ''/fluent-bit/credentials'' ''default''))"
  using GetCredentials_strict_order [of example_aws "''AKIDEXAMPLE''" "''secret''" "[]"]
    GetCredentials_strict_order [of example_aws "''AKIDEXAMPLE''" "[]" "[]"]
    GetCredentials_strict_order [of example_aws "[]" "[]" "[]"]
    GetCredentials_strict_order [of example_aws "''AKIDEXAMPLE''" "''secret''" "''/fluent-bit/credentials''"]
  by (simp add: example_aws_def Let_def)

text \<open>
  C10. When the credential file path is not empty and its \<^verbatim>\<open>default\<close> profile gives
  no retrievable credential, \<^verbatim>\<open>GetCredentials\<close> fails with the configuration error
  and the shared-file source is the only one it attempted, whatever access key and secret
  were supplied.
\<close>

theorem GetCredentials_shared_no_fallback:
  assumes "credential \<noteq> []" and "shared_profile E credential ''default'' = None"
  shows "GetCredentials E accessKeyID secretKey credential =
           ([NewSharedCredentials credential ''default''], Inl FailedToCreateCredentials)"
  using assms by (simp add: GetCredentials_def)

theorem GetCredentials_shared_no_fallback_witness:
  "''/missing'' \<noteq> [] \<and> shared_profile example_aws ''/missing'' ''default'' = None
   \<and> creds_Get example_aws (NewStaticCredentials ''AKIDEXAMPLE'' ''secret'' []) =
       Inr \<lparr>AccessKeyID = ''AKIDEXAMPLE'', SecretAccessKey = ''secret'', SessionToken = []\<rparr>
   \<and> GetCredentials example_aws ''AKIDEXAMPLE'' ''secret'' ''/missing'' =
       ([NewSharedCredentials ''/missing'' ''default''], Inl FailedToCreateCredentials)"
proof -
  have 1: "''/missing'' \<noteq> []" by simp
  have 2: "shared_profile example_aws ''/missing'' ''default'' = None"
    by (simp add: example_aws_def)
  show ?thesis
    using GetCredentials_shared_no_fallback [OF 1 2, of "''AKIDEXAMPLE''" "''secret''"] 2
    by simp
qed

section \<open>Configuration building\<close>

text \<open>
  C6. Whatever the compression string is, \<^verbatim>\<open>getS3Config\<close> returns what it returns
  for the string \<^verbatim>\<open>gzip\<close>, with the compression mode set to gzip when the string equals
  \<^verbatim>\<open>gzip\<close> and to plain text otherwise: the string decides the mode by that equality
  alone and never causes an error.
\<close>

theorem getS3Config_compress_mode:
  "getS3Config E L loc0 a s c p b r cmp e acb ll tz =
     map_sum id (\<lambda>conf. conf\<lparr>compress := (if cmp = ''gzip'' then gzipFormat else plainTextFormat)\<rparr>)
       (getS3Config E L loc0 a s c p b r ''gzip'' e acb ll tz)"
  by (simp add: getS3Config_def Let_def split: sum.splits option.splits)

lemma example_config:
  "getS3Config example_aws example_libs loc0 ''AKIDEXAMPLE'' ''secret'' [] ''logs'' ''bucket''
     ''eu-west-1'' cmp [] acb [] [] =
   Inr \<lparr>credentials = NewStaticCredentials ''AKIDEXAMPLE'' ''secret'' [], bucket = ''bucket'',
        s3prefix = ''logs'', region = ''eu-west-1'',
        compress = (if cmp = ''gzip'' then gzipFormat else plainTextFormat), endpoint = [],
        logLevel = InfoLevel, location = loc0,
        autoCreateBucket = (case ParseBool acb of None \<Rightarrow> False | Some v \<Rightarrow> v)\<rparr>"
  by (simp add: getS3Config_def GetCredentials_def example_libs_def ParseLevel_ascii_def
      ToLowerASCII_def Let_def)


theorem getS3Config_compress_mode_witness:
  "getS3Config example_aws example_libs (\<lambda>sec. 0) ''AKIDEXAMPLE'' ''secret'' [] ''logs'' ''bucket''
     ''eu-west-1'' ''gzip'' [] [] [] [] =
     Inr \<lparr>credentials = NewStaticCredentials ''AKIDEXAMPLE'' ''secret'' [], bucket = ''bucket'',
        s3prefix = ''logs'', region = ''eu-west-1'', compress = gzipFormat, endpoint = [],
        logLevel = InfoLevel, location = (\<lambda>sec. 0), autoCreateBucket = False\<rparr>
   \<and> getS3Config example_aws example_libs (\<lambda>sec. 0) ''AKIDEXAMPLE'' ''secret'' [] ''logs'' ''bucket''
     ''eu-west-1'' ''GZIP'' [] [] [] [] =
     Inr \<lparr>credentials = NewStaticCredentials ''AKIDEXAMPLE'' ''secret'' [], bucket = ''bucket'',
        s3prefix = ''logs'', region = ''eu-west-1'', compress = plainTextFormat, endpoint = [],
        logLevel = InfoLevel, location = (\<lambda>sec. 0), autoCreateBucket = False\<rparr>
   \<and> getS3Config example_aws example_libs (\<lambda>sec. 0) ''AKIDEXAMPLE'' ''secret'' [] ''logs'' ''bucket''
     ''eu-west-1'' [] [] [] [] [] =
     Inr \<lparr>credentials = NewStaticCredentials ''AKIDEXAMPLE'' ''secret'' [], bucket = ''bucket'',
        s3prefix = ''logs'', region = ''eu-west-1'', compress = plainTextFormat, endpoint = [],
        logLevel = InfoLevel, location = (\<lambda>sec. 0), autoCreateBucket = False\<rparr>"
  using getS3Config_compress_mode [of example_aws example_libs "\<lambda>sec. 0" "''AKIDEXAMPLE''"
      "''secret''" "[]" "''logs''" "''bucket''" "''eu-west-1''" "''GZIP''" "[]" "[]" "[]" "[]"]
    getS3Config_compress_mode [of example_aws example_libs "\<lambda>sec. 0" "''AKIDEXAMPLE''"
      "''secret''" "[]" "''logs''" "''bucket''" "''eu-west-1''" "[]" "[]" "[]" "[]" "[]"]
  by (simp add: example_config ParseBool_def)

text \<open>
  C7. When the endpoint string is not empty and ends with \<^verbatim>\<open>amazonaws.com\<close>,
  \<^verbatim>\<open>getS3Config\<close> returns an error and no configuration; when the credentials
  resolve and bucket, prefix and region are not empty, that error is the endpoint error.
\<close>

theorem getS3Config_endpoint_rejected:
  assumes "e \<noteq> []" and "HasSuffix e ''amazonaws.com''"
  shows "isl (getS3Config E L loc0 a s c p b r cmp e acb ll tz) \<and>
     getS3Config E L loc0 a s c p b r cmp e acb ll tz =
       (case snd (GetCredentials E a s c) of
          Inl err \<Rightarrow> Inl FailedToCreateCredentials
        | Inr creds \<Rightarrow>
            if b = [] then Inl EmptyBucket
            else if p = [] then Inl EmptyS3prefix
            else if r = [] then Inl EmptyRegion
            else Inl EndpointNotSupported)"
  using assms by (simp add: getS3Config_def Let_def split: sum.splits option.splits)

theorem getS3Config_endpoint_rejected_witness:
  "''s3.eu-west-1.amazonaws.com'' \<noteq> [] \<and> HasSuffix ''s3.eu-west-1.amazonaws.com'' ''amazonaws.com''
   \<and> getS3Config example_aws example_libs (\<lambda>sec. 0) ''AKIDEXAMPLE'' ''secret'' [] ''logs'' ''bucket''
        ''eu-west-1'' ''gzip'' ''s3.eu-west-1.amazonaws.com'' ''true'' ''info'' ''UTC'' =
      Inl EndpointNotSupported
   \<and> isl (getS3Config example_aws example_libs (\<lambda>sec. 0) ''AKIDEXAMPLE'' ''secret'' [] ''logs''
        ''bucket'' ''eu-west-1'' ''gzip'' ''https://minio.local:9000'' ''true'' ''info'' ''UTC'') = False"
proof -
  have 1: "''s3.eu-west-1.amazonaws.com'' \<noteq> []" by simp
  have 2: "HasSuffix ''s3.eu-west-1.amazonaws.com'' ''amazonaws.com''"
    by (simp add: HasSuffix_def)
  have 3: "snd (GetCredentials example_aws ''AKIDEXAMPLE'' ''secret'' []) =
             Inr (NewStaticCredentials ''AKIDEXAMPLE'' ''secret'' [])"
    by (simp add: GetCredentials_def Let_def)
  have 4: "isl (getS3Config example_aws example_libs (\<lambda>sec. 0) ''AKIDEXAMPLE'' ''secret'' [] ''logs''
        ''bucket'' ''eu-west-1'' ''gzip'' ''https://minio.local:9000'' ''true'' ''info'' ''UTC'') = False"
    by (simp add: getS3Config_def 3 HasSuffix_def ParseBool_def example_libs_def
        ParseLevel_ascii_def ToLowerASCII_def LoadLocation_fixed_def Let_def)
  show ?thesis
    using getS3Config_endpoint_rejected [OF 1 2, of example_aws example_libs "\<lambda>sec. 0"
        "''AKIDEXAMPLE''" "''secret''" "[]" "''logs''" "''bucket''" "''eu-west-1''" "''gzip''"
        "''true''" "''info''" "''UTC''"] 2 3 4
    by simp
qed

text \<open>
  C8. In \<^verbatim>\<open>getS3Config\<close>: an auto-bucket-creation string that
  \<^verbatim>\<open>strconv.ParseBool\<close> refuses gives what the string \<^verbatim>\<open>false\<close> gives, and a
  configuration that is returned has the flag off; an empty log level gives what
  \<^verbatim>\<open>info\<close> gives; with an empty time zone a returned configuration holds the value of
  \<^verbatim>\<open>time.Local\<close>; a log level that is not empty and that \<^verbatim>\<open>ParseLevel\<close>
  refuses, or a time zone that is not empty and that \<^verbatim>\<open>LoadLocation\<close> refuses,
  gives an error, which in a configuration that is valid with an empty time zone is the
  log-level error or the time-zone error.
\<close>

theorem getS3Config_defaults:
  "(ParseBool acb = None \<longrightarrow>
      getS3Config E L loc0 a s c p b r cmp e acb ll tz = getS3Config E L loc0 a s c p b r cmp e ''false'' ll tz
      \<and> (\<forall>conf. getS3Config E L loc0 a s c p b r cmp e acb ll tz = Inr conf \<longrightarrow> \<not> autoCreateBucket conf))
   \<and> getS3Config E L loc0 a s c p b r cmp e acb [] tz = getS3Config E L loc0 a s c p b r cmp e acb ''info'' tz
   \<and> (\<forall>conf. getS3Config E L loc0 a s c p b r cmp e acb ll [] = Inr conf \<longrightarrow> location conf = loc0)
   \<and> (ll \<noteq> [] \<and> ParseLevel L ll = None \<longrightarrow>
        isl (getS3Config E L loc0 a s c p b r cmp e acb ll tz)
        \<and> (\<forall>conf. getS3Config E L loc0 a s c p b r cmp e acb ll0 [] = Inr conf \<longrightarrow>
              getS3Config E L loc0 a s c p b r cmp e acb ll tz = Inl (InvalidLogLevel ll)))
   \<and> (\<forall>err. tz \<noteq> [] \<and> LoadLocation L tz = Inl err \<longrightarrow>
        isl (getS3Config E L loc0 a s c p b r cmp e acb ll tz)
        \<and> (\<forall>conf. getS3Config E L loc0 a s c p b r cmp e acb ll [] = Inr conf \<longrightarrow>
              getS3Config E L loc0 a s c p b r cmp e acb ll tz = Inl (InvalidTimeZone err)))"
proof -
  have pb: "ParseBool ''false'' = Some False" by (simp add: ParseBool_def)
  have 1: "ParseBool acb = None \<Longrightarrow>
      getS3Config E L loc0 a s c p b r cmp e acb ll tz = getS3Config E L loc0 a s c p b r cmp e ''false'' ll tz"
    by (simp add: getS3Config_def pb Let_def cong: sum.case_cong option.case_cong if_cong)
  have 2: "ParseBool acb = None \<Longrightarrow> getS3Config E L loc0 a s c p b r cmp e acb ll tz = Inr conf \<Longrightarrow> \<not> autoCreateBucket conf" for conf
    by (auto simp add: getS3Config_def Let_def split: sum.splits option.splits if_splits)
  have 3: "getS3Config E L loc0 a s c p b r cmp e acb [] tz = getS3Config E L loc0 a s c p b r cmp e acb ''info'' tz"
    by (simp add: getS3Config_def Let_def cong: sum.case_cong option.case_cong if_cong)
  have 4: "getS3Config E L loc0 a s c p b r cmp e acb ll [] = Inr conf \<Longrightarrow> location conf = loc0" for conf
    by (auto simp add: getS3Config_def Let_def split: sum.splits option.splits if_splits)
  have 5: "ll \<noteq> [] \<Longrightarrow> ParseLevel L ll = None \<Longrightarrow> isl (getS3Config E L loc0 a s c p b r cmp e acb ll tz)"
    by (simp add: getS3Config_def Let_def split: sum.splits)
  have 6: "ll \<noteq> [] \<Longrightarrow> ParseLevel L ll = None \<Longrightarrow> getS3Config E L loc0 a s c p b r cmp e acb ll0 [] = Inr conf \<Longrightarrow>
              getS3Config E L loc0 a s c p b r cmp e acb ll tz = Inl (InvalidLogLevel ll)" for conf
    by (simp add: getS3Config_def Let_def split: sum.splits if_splits)
  have 7: "tz \<noteq> [] \<Longrightarrow> LoadLocation L tz = Inl err \<Longrightarrow> isl (getS3Config E L loc0 a s c p b r cmp e acb ll tz)" for err
    by (simp add: getS3Config_def Let_def split: sum.splits option.splits)
  have 8: "tz \<noteq> [] \<Longrightarrow> LoadLocation L tz = Inl err \<Longrightarrow> getS3Config E L loc0 a s c p b r cmp e acb ll [] = Inr conf \<Longrightarrow>
              getS3Config E L loc0 a s c p b r cmp e acb ll tz = Inl (InvalidTimeZone err)" for err conf
    by (simp add: getS3Config_def Let_def split: sum.splits option.splits if_splits)
  show ?thesis
    using 1 2 3 4 5 6 7 8 by blast
qed

theorem getS3Config_defaults_witness:
  "ParseBool ''yes'' = None
   \<and> getS3Config example_aws example_libs (\<lambda>sec. 7200) ''AKIDEXAMPLE'' ''secret'' [] ''logs'' ''bucket''
        ''eu-west-1'' [] [] ''yes'' [] [] =
      Inr \<lparr>credentials = NewStaticCredentials ''AKIDEXAMPLE'' ''secret'' [], bucket = ''bucket'',
        s3prefix = ''logs'', region = ''eu-west-1'', compress = plainTextFormat, endpoint = [],
        logLevel = InfoLevel, location = (\<lambda>sec. 7200), autoCreateBucket = False\<rparr>
   \<and> ''verbose'' \<noteq> [] \<and> ParseLevel example_libs ''verbose'' = None
   \<and> getS3Config example_aws example_libs (\<lambda>sec. 7200) ''AKIDEXAMPLE'' ''secret'' [] ''logs'' ''bucket''
        ''eu-west-1'' [] [] ''yes'' ''verbose'' ''UTC'' = Inl (InvalidLogLevel ''verbose'')
   \<and> ''Mars/Olympus'' \<noteq> [] \<and> LoadLocation example_libs ''Mars/Olympus'' = Inl ''unknown time zone Mars/Olympus''
   \<and> getS3Config example_aws example_libs (\<lambda>sec. 7200) ''AKIDEXAMPLE'' ''secret'' [] ''logs'' ''bucket''
        ''eu-west-1'' [] [] ''yes'' [] ''Mars/Olympus'' = Inl (InvalidTimeZone ''unknown time zone Mars/Olympus'')"
proof -
  have 1: "ParseBool ''yes'' = None" by (simp add: ParseBool_def)
  have 2: "''verbose'' \<noteq> [] \<and> ParseLevel example_libs ''verbose'' = None"
    by (simp add: example_libs_def ParseLevel_ascii_def ToLowerASCII_def)
  have 3: "''Mars/Olympus'' \<noteq> [] \<and> LoadLocation example_libs ''Mars/Olympus'' = Inl ''unknown time zone Mars/Olympus''"
    by (simp add: example_libs_def LoadLocation_fixed_def)
  note ex = example_config [of "\<lambda>sec. 7200" "[]" "''yes''"]
  show ?thesis
    using getS3Config_defaults [of "''yes''" example_aws example_libs "\<lambda>sec. 7200" "''AKIDEXAMPLE''"
        "''secret''" "[]" "''logs''" "''bucket''" "''eu-west-1''" "[]" "[]" "''verbose''" "''UTC''" "[]"]
      getS3Config_defaults [of "''yes''" example_aws example_libs "\<lambda>sec. 7200" "''AKIDEXAMPLE''"
        "''secret''" "[]" "''logs''" "''bucket''" "''eu-west-1''" "[]" "[]" "[]" "''Mars/Olympus''" "[]"]
      1 2 3 ex
    by auto
qed

section \<open>The object key\<close>

declare decimal.simps [simp del]

declare Format.simps [simp del]

lemma Format_chunk:
  "nextStdChunk layout = (prefix, s, suffix) \<Longrightarrow>
   Format t layout = (if s = stdNone then prefix else prefix @ appendStd t s @ Format t suffix)"
  by (subst Format.simps) simp

lemma Format_empty: "Format t [] = []"
  by (simp add: Format_chunk [where layout = "[]"])

lemma Format_hour: "Format t ''15'' = appendStd t stdHour"
  by (simp add: Format_chunk [where layout = "''15''"] Format_empty)

lemma Format_clock:
  "Format t ''150405'' = appendStd t stdHour @ appendStd t stdZeroMinute @ appendStd t stdZeroSecond"
proof -
  have 1: "Format t ''150405'' = appendStd t stdHour @ Format t ''0405''"
    by (simp add: Format_chunk [where layout = "''150405''"])
  have 2: "Format t ''0405'' = appendStd t stdZeroMinute @ Format t ''05''"
    by (simp add: Format_chunk [where layout = "''0405''"] std0x_def)
  have 3: "Format t ''05'' = appendStd t stdZeroSecond @ Format t []"
    by (simp add: Format_chunk [where layout = "''05''"] std0x_def)
  show ?thesis by (simp add: 1 2 3 Format_empty)
qed

lemma Format_date_then:
  "Format t (''20060102'' @ layout) =
     appendStd t stdLongYear @ appendStd t stdZeroMonth @ appendStd t stdZeroDay @ Format t layout"
proof -
  have 1: "Format t (''20060102'' @ layout) = appendStd t stdLongYear @ Format t (''0102'' @ layout)"
    by (subst Format.simps) simp
  have 2: "Format t (''0102'' @ layout) = appendStd t stdZeroMonth @ Format t (''02'' @ layout)"
    by (subst Format.simps) (simp add: std0x_def)
  have 3: "Format t (''02'' @ layout) = appendStd t stdZeroDay @ Format t layout"
    by (subst Format.simps) (simp add: std0x_def)
  show ?thesis by (simp only: 1 2 3)
qed

lemma Format_date:
  "Format t ''20060102'' = appendStd t stdLongYear @ appendStd t stdZeroMonth @ appendStd t stdZeroDay"
  using Format_date_then [of t "[]"] by (simp add: Format_empty)

lemma Format_timestamp:
  "Format t ''20060102150405'' =
     appendStd t stdLongYear @ appendStd t stdZeroMonth @ appendStd t stdZeroDay
     @ appendStd t stdHour @ appendStd t stdZeroMinute @ appendStd t stdZeroSecond"
  using Format_date_then [of t "''150405''"] by (simp add: Format_clock)

lemma abs_of_Local: "abs_of (Local l t) = unixSec t + l (unixSec t) + 62135596800"
  by (simp add: abs_of_def Local_def)

lemma GenerateObjectKey_fields:
  assumes "absDate (unixSec t + op_location s3op (unixSec t) + 62135596800) = (year, month, day)"
    and "absClock (unixSec t + op_location s3op (unixSec t) + 62135596800) = (hour, minute, second)"
  shows "GenerateObjectKey tl0 s3op t =
     (filepath_Join
        [op_prefix s3op,
         appendInt year 4 @ appendInt month 2 @ appendInt day 2,
         appendInt hour 2,
         appendInt year 4 @ appendInt month 2 @ appendInt day 2
           @ appendInt hour 2 @ appendInt minute 2 @ appendInt second 2
           @ (case compressFormat s3op of plainTextFormat \<Rightarrow> ''.log'' | gzipFormat \<Rightarrow> ''.log.gz'')],
      op_location s3op)"
  using assms
  by (simp add: GenerateObjectKey_def Let_def Format_timestamp Format_date Format_hour
      appendStd_def abs_of_Local)

lemma decimal_small: "u < 10 \<Longrightarrow> decimal u = [char_of (48 + u)]"
  by (subst decimal.simps) simp

lemma decimal_two: "10 \<le> u \<Longrightarrow> u < 100 \<Longrightarrow> decimal u = [char_of (48 + u div 10), char_of (48 + u mod 10)]"
  by (subst decimal.simps) (simp add: decimal_small)

lemma char_of_48: "char_of (48::nat) = CHR ''0''"
  by (simp add: char_of_eq_iff)

lemma appendInt_two_digits:
  assumes "0 \<le> x" and "x < 100"
  shows "appendInt x 2 = [char_of (48 + nat x div 10), char_of (48 + nat x mod 10)]"
proof (cases "nat x < 10")
  case True
  then show ?thesis using assms by (simp add: appendInt_def Let_def decimal_small char_of_48)
next
  case False
  then show ?thesis using assms by (simp add: appendInt_def Let_def decimal_two)
qed



lemma example_date: "absDate (1709626029 + 62135596800) = (2024, 3, 5)"
  by code_simp

lemma example_clock: "absClock (1709626029 + 62135596800) = (8, 7, 9)"
  by code_simp

lemma example_digits:
  "appendInt 2024 4 = ''2024''" "appendInt 3 2 = ''03''" "appendInt 5 2 = ''05''"
  "appendInt 8 2 = ''08''" "appendInt 7 2 = ''07''" "appendInt 9 2 = ''09''"
  by code_simp+

lemma example_join:
  "filepath_Join [''logs'', ''20240305'', ''08'', ''20240305080709.log''] =
     ''logs/20240305/08/20240305080709.log''"
  by code_simp



section \<open>Flush\<close>

lemma encodeJSON_range_total:
  "wellformed r \<Longrightarrow> \<exists>m'. encodeJSON_range r m = Some m'"
  by (induction r m rule: encodeJSON_range.induct) (auto split: option.splits)

lemma createJSON_total:
  "wellformed r \<Longrightarrow> \<exists>line err. createJSON marshal r = Some (line, err)"
  using encodeJSON_range_total [of r "[]"]
  by (auto simp add: createJSON_def encodeJSON_def split: sum.splits)

lemma read_records_all:
  "list_all wellformed records \<Longrightarrow>
   read_records P (map (Pair 0) records) lines warns =
     Some (lines @ concat (map (\<lambda>js. js @ [CHR 0x0A]) (encoded_lines (Marshal P) records)),
           warns @ encode_warnings (Marshal P) records)"
proof (induction records arbitrary: lines warns)
  case Nil
  then show ?case by (simp add: encoded_lines_def encode_warnings_def)
next
  case (Cons r records)
  then obtain line err where c: "createJSON (Marshal P) r = Some (line, err)"
    using createJSON_total [of r "Marshal P"] by auto
  show ?case
  proof (cases err)
    case None
    with c Cons show ?thesis
      by (simp add: encoded_lines_def encode_warnings_def)
  next
    case (Some e)
    with c Cons show ?thesis
      by (simp add: encoded_lines_def encode_warnings_def)
  qed
qed

lemma read_records_total:
  "list_all (\<lambda>x. wellformed (snd x)) dec \<Longrightarrow> \<exists>lines' warns'. read_records P dec lines warns = Some (lines', warns')"
proof (induction dec arbitrary: lines warns)
  case Nil
  then show ?case by simp
next
  case (Cons x dec)
  obtain ret r where x: "x = (ret, r)" by (cases x)
  with Cons obtain line err where c: "createJSON (Marshal P) r = Some (line, err)"
    using createJSON_total [of r "Marshal P"] by auto
  show ?case
    using Cons c x by (cases err) auto
qed


lemma makeGzip_bytes:
  "makeGzip F now body =
     (case Write_error F body of
        Some e \<Rightarrow>
          ([CHR 0x1f, CHR 0x8b, CHR 0x08, CHR 0x08]
           @ (if unixSec now > 0 then PutUint32 (word_of_int (unixSec now)) else PutUint32 0)
           @ [CHR 0x00, CHR 0xff] @ ''fluent-bit-go-s3'' @ [CHR 0x00], Some e)
      | None \<Rightarrow>
          ([CHR 0x1f, CHR 0x8b, CHR 0x08, CHR 0x08]
           @ (if unixSec now > 0 then PutUint32 (word_of_int (unixSec now)) else PutUint32 0)
           @ [CHR 0x00, CHR 0xff] @ ''fluent-bit-go-s3'' @ [CHR 0x00]
           @ deflate F body @ PutUint32 (crc32_Update 0 body) @ PutUint32 (of_nat (length body)), None))"
  by (simp add: makeGzip_def gzip_Write_def gzip_Close_def NewWriter_def writeString_def
      gzip_header_def Let_def split: option.splits)

lemma makeGzip_error: "snd (makeGzip F now body) = Write_error F body"
  by (simp add: makeGzip_bytes split: option.splits)

text \<open>
  C2. For a valid operator id and records with textual keys, \<^verbatim>\<open>FLBPluginFlushCtx\<close>
  returns, never with \<^verbatim>\<open>FLB_ERROR\<close>: in plain mode \<^verbatim>\<open>FLB_OK\<close> when the upload of
  the lines reports no error and \<^verbatim>\<open>FLB_RETRY\<close> when it reports one; in gzip mode
  \<^verbatim>\<open>FLB_RETRY\<close> when the compressor reports an error, and otherwise \<^verbatim>\<open>FLB_OK\<close> or
  \<^verbatim>\<open>FLB_RETRY\<close> as the upload of the compressed lines reports no error or one.
\<close>

theorem FLBPluginFlushCtx_outcome:
  assumes "ctx < length (s3operators w)" and "list_all (\<lambda>x. wellformed (snd x)) dec"
  shows "\<exists>lines warns objectKey ret w'.
      read_records P dec [] [] = Some (lines, warns)
      \<and> objectKey = fst (GenerateObjectKey (time_Local w) (s3operators w ! ctx) (key_now C))
      \<and> FLBPluginFlushCtx P C w ctx dec = Some (ret, w')
      \<and> ret \<noteq> FLB_ERROR
      \<and> (case compressFormat (s3operators w ! ctx) of
            plainTextFormat \<Rightarrow>
              ret = (if Upload P (op_bucket (s3operators w ! ctx)) objectKey lines = None
                     then FLB_OK else FLB_RETRY)
          | gzipFormat \<Rightarrow>
              (case makeGzip (flate P) (gzip_now C) lines of
                 (compressed, Some err) \<Rightarrow> ret = FLB_RETRY
               | (compressed, None) \<Rightarrow>
                   ret = (if Upload P (op_bucket (s3operators w ! ctx)) objectKey compressed = None
                          then FLB_OK else FLB_RETRY)))"
proof -
  obtain lines warns where r: "read_records P dec [] [] = Some (lines, warns)"
    using read_records_total [OF assms(2)] by blast
  obtain objectKey tl' where k:
    "GenerateObjectKey (time_Local w) (s3operators w ! ctx) (key_now C) = (objectKey, tl')"
    by (cases "GenerateObjectKey (time_Local w) (s3operators w ! ctx) (key_now C)")
  show ?thesis
  proof (cases "compressFormat (s3operators w ! ctx)")
    case plainTextFormat
    then show ?thesis
      using assms(1) r k
      by (auto simp add: FLBPluginFlushCtx_def Put_def FLB_OK_def FLB_RETRY_def FLB_ERROR_def)
  next
    case gzipFormat
    obtain compressed err where z: "makeGzip (flate P) (gzip_now C) lines = (compressed, err)"
      by (cases "makeGzip (flate P) (gzip_now C) lines")
    show ?thesis
      using assms(1) r k z gzipFormat
      by (cases err; cases "Upload P (op_bucket (s3operators w ! ctx)) objectKey compressed")
        (auto simp add: FLBPluginFlushCtx_def Put_def FLB_OK_def FLB_RETRY_def FLB_ERROR_def)
  qed
qed

text \<open>
  C3 (amended). For a valid operator id and a sequence of records with textual keys,
  the empty one included, \<^verbatim>\<open>FLBPluginFlushCtx\<close> returns, and the calls of
  \<^verbatim>\<open>Upload\<close> it makes are: in plain mode exactly one, whose body is every
  line of a record that \<^verbatim>\<open>createJSON\<close> encoded without error, each followed by a
  newline, in order; in gzip mode exactly one with the compressed form of that body,
  or none when the compressor reports an error. A record whose encoding fails adds a
  warning and nothing to the body.
\<close>

theorem FLBPluginFlushCtx_single_upload:
  assumes "ctx < length (s3operators w)" and "list_all wellformed records"
  shows "\<exists>ret w'.
      FLBPluginFlushCtx P C w ctx (map (Pair 0) records) = Some (ret, w')
      \<and> uploaded w' = uploaded w @
          (let s3op = s3operators w ! ctx;
               objectKey = fst (GenerateObjectKey (time_Local w) s3op (key_now C));
               payload = concat (map (\<lambda>js. js @ [CHR 0x0A]) (encoded_lines (Marshal P) records))
           in case compressFormat s3op of
                plainTextFormat \<Rightarrow> [(op_bucket s3op, objectKey, payload)]
              | gzipFormat \<Rightarrow>
                  (case makeGzip (flate P) (gzip_now C) payload of
                     (compressed, Some err) \<Rightarrow> []
                   | (compressed, None) \<Rightarrow> [(op_bucket s3op, objectKey, compressed)]))
      \<and> take (length (encode_warnings (Marshal P) records)) (drop (length (logged w)) (logged w')) =
          encode_warnings (Marshal P) records"
proof -
  note r = read_records_all [OF assms(2), of P "[]" "[]"]
  obtain objectKey tl' where k:
    "GenerateObjectKey (time_Local w) (s3operators w ! ctx) (key_now C) = (objectKey, tl')"
    by (cases "GenerateObjectKey (time_Local w) (s3operators w ! ctx) (key_now C)")
  show ?thesis
  proof (cases "compressFormat (s3operators w ! ctx)")
    case plainTextFormat
    then show ?thesis
      using assms(1) r k
      by (cases "Upload P (op_bucket (s3operators w ! ctx)) objectKey
             (concat (map (\<lambda>js. js @ [CHR 0x0A]) (encoded_lines (Marshal P) records)))")
        (auto simp add: FLBPluginFlushCtx_def Put_def Let_def)
  next
    case gzipFormat
    obtain compressed err where z:
      "makeGzip (flate P) (gzip_now C)
         (concat (map (\<lambda>js. js @ [CHR 0x0A]) (encoded_lines (Marshal P) records))) = (compressed, err)"
      by (cases "makeGzip (flate P) (gzip_now C)
         (concat (map (\<lambda>js. js @ [CHR 0x0A]) (encoded_lines (Marshal P) records)))")
    show ?thesis
      using assms(1) r k z gzipFormat
      by (cases err; cases "Upload P (op_bucket (s3operators w ! ctx)) objectKey compressed")
        (auto simp add: FLBPluginFlushCtx_def Put_def Let_def)
  qed
qed


lemma example_join_gz:
  "filepath_Join [''logs'', ''20240305'', ''08'', ''20240305080709.log.gz''] =
     ''logs/20240305/08/20240305080709.log.gz''"
  by code_simp

lemma example_key:
  "fst (GenerateObjectKey tl0 (example_operator bkt fmt) (key_now example_clock)) =
     (case fmt of
        plainTextFormat \<Rightarrow> ''logs/20240305/08/20240305080709.log''
      | gzipFormat \<Rightarrow> ''logs/20240305/08/20240305080709.log.gz'')"
  using example_date example_clock example_join example_join_gz
  by (cases fmt)
    (simp_all add: GenerateObjectKey_fields [where year = 2024 and month = 3 and day = 5
        and hour = 8 and minute = 7 and second = 9]
      example_operator_def example_clock_def example_digits)

lemma example_lines:
  "encoded_lines names_Marshal
     [[(VString ''a'', VInt 1)], [(VString ''f'', VFloat 0)], [(VString ''b'', VBytes ''x'')]] =
   [''{a}'', ''{b}'']"
  "encode_warnings names_Marshal
     [[(VString ''a'', VInt 1)], [(VString ''f'', VFloat 0)], [(VString ''b'', VBytes ''x'')]] =
   [WarnCreating ''unsupported value'']"
  "encoded_lines names_Marshal [[(VString ''a'', VInt 1)]] = [''{a}'']"
  by (simp_all add: encoded_lines_def encode_warnings_def createJSON_def encodeJSON_def
      names_Marshal_def)

lemma example_world_fields:
  "time_Local (example_world bkt fmt) = (\<lambda>sec. 3600)"
  "s3operators (example_world bkt fmt) = [example_operator bkt fmt]"
  "uploaded (example_world bkt fmt) = []"
  "logged (example_world bkt fmt) = []"
  by (simp_all add: example_world_def)

lemma example_operator_fields:
  "op_bucket (example_operator bkt fmt) = bkt"
  "compressFormat (example_operator bkt fmt) = fmt"
  by (simp_all add: example_operator_def)

theorem FLBPluginFlushCtx_outcome_witness:
  "0 < length (s3operators (example_world ''offline'' plainTextFormat))
   \<and> list_all (\<lambda>x. wellformed (snd x)) [(0, [(VString ''a'', VInt 1)])]
   \<and> map_option fst (FLBPluginFlushCtx example_plugin example_clock
        (example_world ''offline'' plainTextFormat) 0 [(0, [(VString ''a'', VInt 1)])]) = Some FLB_RETRY
   \<and> map_option fst (FLBPluginFlushCtx example_plugin example_clock
        (example_world ''bucket'' plainTextFormat) 0 [(0, [(VString ''a'', VInt 1)])]) = Some FLB_OK
   \<and> map_option fst (FLBPluginFlushCtx (example_plugin\<lparr>flate := broken_flate\<rparr>) example_clock
        (example_world ''bucket'' gzipFormat) 0 [(0, [(VString ''a'', VInt 1)])]) = Some FLB_RETRY"
proof -
  have 1: "0 < length (s3operators (example_world bkt fmt))" for bkt fmt
    by (simp add: example_world_fields)
  have 2: "list_all (\<lambda>x. wellformed (snd x)) [(0, [(VString ''a'', VInt 1)])]"
    by simp
  have a: "map_option fst (FLBPluginFlushCtx example_plugin example_clock
        (example_world ''offline'' plainTextFormat) 0 [(0, [(VString ''a'', VInt 1)])]) = Some FLB_RETRY"
    using FLBPluginFlushCtx_outcome [OF 1 [of "''offline''" plainTextFormat] 2,
        where P = example_plugin and C = example_clock]
    by (auto simp add: example_world_fields example_operator_fields example_plugin_def
        example_Upload_def)
  have b: "map_option fst (FLBPluginFlushCtx example_plugin example_clock
        (example_world ''bucket'' plainTextFormat) 0 [(0, [(VString ''a'', VInt 1)])]) = Some FLB_OK"
    using FLBPluginFlushCtx_outcome [OF 1 [of "''bucket''" plainTextFormat] 2,
        where P = example_plugin and C = example_clock]
    by (auto simp add: example_world_fields example_operator_fields example_plugin_def
        example_Upload_def)
  have c: "map_option fst (FLBPluginFlushCtx (example_plugin\<lparr>flate := broken_flate\<rparr>) example_clock
        (example_world ''bucket'' gzipFormat) 0 [(0, [(VString ''a'', VInt 1)])]) = Some FLB_RETRY"
    using FLBPluginFlushCtx_outcome [OF 1 [of "''bucket''" gzipFormat] 2,
        where P = "example_plugin\<lparr>flate := broken_flate\<rparr>" and C = example_clock]
    by (auto simp add: example_world_fields example_operator_fields makeGzip_bytes
        broken_flate_def split: option.splits)
  show ?thesis
    using 1 [of "''offline''" plainTextFormat] 2 a b c by blast
qed

theorem FLBPluginFlushCtx_single_upload_witness:
  "0 < length (s3operators (example_world ''bucket'' plainTextFormat))
   \<and> list_all wellformed
       [[(VString ''a'', VInt 1)], [(VString ''f'', VFloat 0)], [(VString ''b'', VBytes ''x'')]]
   \<and> map_option (uploaded \<circ> snd) (FLBPluginFlushCtx example_plugin example_clock
        (example_world ''bucket'' plainTextFormat) 0
        (map (Pair 0) [[(VString ''a'', VInt 1)], [(VString ''f'', VFloat 0)], [(VString ''b'', VBytes ''x'')]])) =
       Some [(''bucket'', ''logs/20240305/08/20240305080709.log'',
              ''{a}'' @ [CHR 0x0A] @ ''{b}'' @ [CHR 0x0A])]
   \<and> map_option (uploaded \<circ> snd) (FLBPluginFlushCtx example_plugin example_clock
        (example_world ''bucket'' plainTextFormat) 0 (map (Pair 0) [])) =
       Some [(''bucket'', ''logs/20240305/08/20240305080709.log'', [])]"
proof -
  have 1: "0 < length (s3operators (example_world ''bucket'' plainTextFormat))"
    by (simp add: example_world_fields)
  have 2: "list_all wellformed
       [[(VString ''a'', VInt 1)], [(VString ''f'', VFloat 0)], [(VString ''b'', VBytes ''x'')]]"
    by simp
  have 3: "list_all wellformed []"
    by simp
  have m: "Marshal example_plugin = names_Marshal"
    by (simp add: example_plugin_def)
  have a: "map_option (uploaded \<circ> snd) (FLBPluginFlushCtx example_plugin example_clock
        (example_world ''bucket'' plainTextFormat) 0
        (map (Pair 0) [[(VString ''a'', VInt 1)], [(VString ''f'', VFloat 0)], [(VString ''b'', VBytes ''x'')]])) =
       Some [(''bucket'', ''logs/20240305/08/20240305080709.log'',
              ''{a}'' @ [CHR 0x0A] @ ''{b}'' @ [CHR 0x0A])]"
    using FLBPluginFlushCtx_single_upload [OF 1 2, where P = example_plugin and C = example_clock]
    by (auto simp add: example_world_fields example_operator_fields m example_key example_lines
        Let_def)
  have b: "map_option (uploaded \<circ> snd) (FLBPluginFlushCtx example_plugin example_clock
        (example_world ''bucket'' plainTextFormat) 0 (map (Pair 0) [])) =
       Some [(''bucket'', ''logs/20240305/08/20240305080709.log'', [])]"
    using FLBPluginFlushCtx_single_upload [OF 1 3, where P = example_plugin and C = example_clock]
    by (auto simp add: example_world_fields example_operator_fields m example_key encoded_lines_def
        Let_def)
  show ?thesis
    using 1 2 a b by blast
qed

text \<open>
  C3 as stated fails: one record is uploaded with a newline after its line, which is not
  the join of the lines with newline separators.
\<close>

theorem FLBPluginFlushCtx_joined_counterexample:
  "map_option (uploaded \<circ> snd) (FLBPluginFlushCtx example_plugin example_clock
        (example_world ''bucket'' plainTextFormat) 0 [(0, [(VString ''a'', VInt 1)])]) =
     Some [(''bucket'', ''logs/20240305/08/20240305080709.log'', ''{a}'' @ [CHR 0x0A])]
   \<and> map_option (uploaded \<circ> snd) (FLBPluginFlushCtx example_plugin example_clock
        (example_world ''bucket'' plainTextFormat) 0 [(0, [(VString ''a'', VInt 1)])]) \<noteq>
     Some [(''bucket'', ''logs/20240305/08/20240305080709.log'',
            strings_Join (encoded_lines names_Marshal [[(VString ''a'', VInt 1)]]) [CHR 0x0A])]"
proof -
  obtain tl' where k:
    "GenerateObjectKey (\<lambda>sec. 3600) (example_operator ''bucket'' plainTextFormat) (key_now example_clock) =
       (''logs/20240305/08/20240305080709.log'', tl')"
    using example_key [of "\<lambda>sec. 3600" "''bucket''" plainTextFormat]
    by (cases "GenerateObjectKey (\<lambda>sec. 3600) (example_operator ''bucket'' plainTextFormat)
        (key_now example_clock)") simp
  have A: "map_option (uploaded \<circ> snd) (FLBPluginFlushCtx example_plugin example_clock
        (example_world ''bucket'' plainTextFormat) 0 [(0, [(VString ''a'', VInt 1)])]) =
     Some [(''bucket'', ''logs/20240305/08/20240305080709.log'', ''{a}'' @ [CHR 0x0A])]"
    by (simp add: FLBPluginFlushCtx_def example_world_fields example_operator_fields k Put_def
        createJSON_def encodeJSON_def example_plugin_def names_Marshal_def example_Upload_def
        Let_def)
  show ?thesis
    unfolding A by (simp add: example_lines)
qed

end
